theory Spec2Isabelle
  imports Complex_Main "HOL-Library.Word"
begin

section \<open>JavaScript numbers\<close>

text \<open>
  The colour tool (the script of the palette page, \<^verbatim>\<open>app.js\<close>) computes with JavaScript
  numbers. A number is modelled as a real, or one of the three special values the
  source can produce: \<^verbatim>\<open>NaN\<close> (a channel that does not parse, \<^verbatim>\<open>0/0\<close>) and the two
  infinities (a division by zero). Finite arithmetic is exact: the rounding of IEEE
  doubles is not part of the model, and zero carries no sign (a zero divisor counts
  as \<^verbatim>\<open>+0\<close>).
\<close>

datatype number = NaN | PosInf | NegInf | Fin real

definition inf_of :: "real \<Rightarrow> number" where
  "inf_of x = (if 0 < x then PosInf else if x < 0 then NegInf else NaN)"

instantiation number :: "{plus, minus, times, inverse, ord}"
begin

fun plus_number :: "number \<Rightarrow> number \<Rightarrow> number" where
  "plus_number (Fin a) (Fin b) = Fin (a + b)"
| "plus_number NaN _ = NaN"
| "plus_number _ NaN = NaN"
| "plus_number PosInf NegInf = NaN"
| "plus_number NegInf PosInf = NaN"
| "plus_number PosInf _ = PosInf"
| "plus_number _ PosInf = PosInf"
| "plus_number NegInf _ = NegInf"
| "plus_number _ NegInf = NegInf"

fun minus_number :: "number \<Rightarrow> number \<Rightarrow> number" where
  "minus_number (Fin a) (Fin b) = Fin (a - b)"
| "minus_number NaN _ = NaN"
| "minus_number _ NaN = NaN"
| "minus_number PosInf PosInf = NaN"
| "minus_number NegInf NegInf = NaN"
| "minus_number PosInf _ = PosInf"
| "minus_number _ NegInf = PosInf"
| "minus_number NegInf _ = NegInf"
| "minus_number _ PosInf = NegInf"

fun times_number :: "number \<Rightarrow> number \<Rightarrow> number" where
  "times_number (Fin a) (Fin b) = Fin (a * b)"
| "times_number NaN _ = NaN"
| "times_number _ NaN = NaN"
| "times_number PosInf (Fin b) = inf_of b"
| "times_number NegInf (Fin b) = inf_of (- b)"
| "times_number (Fin a) PosInf = inf_of a"
| "times_number (Fin a) NegInf = inf_of (- a)"
| "times_number PosInf PosInf = PosInf"
| "times_number NegInf NegInf = PosInf"
| "times_number PosInf NegInf = NegInf"
| "times_number NegInf PosInf = NegInf"

fun divide_number :: "number \<Rightarrow> number \<Rightarrow> number" where
  "divide_number (Fin a) (Fin b) = (if b = 0 then inf_of a else Fin (a / b))"
| "divide_number NaN _ = NaN"
| "divide_number _ NaN = NaN"
| "divide_number PosInf (Fin b) = (if 0 \<le> b then PosInf else NegInf)"
| "divide_number NegInf (Fin b) = (if 0 \<le> b then NegInf else PosInf)"
| "divide_number (Fin a) PosInf = Fin 0"
| "divide_number (Fin a) NegInf = Fin 0"
| "divide_number _ _ = NaN"

definition inverse_number :: "number \<Rightarrow> number" where
  "inverse_number x = divide (Fin 1) x"

fun less_eq_number :: "number \<Rightarrow> number \<Rightarrow> bool" where
  "less_eq_number (Fin a) (Fin b) = (a \<le> b)"
| "less_eq_number NaN _ = False"
| "less_eq_number _ NaN = False"
| "less_eq_number NegInf _ = True"
| "less_eq_number _ PosInf = True"
| "less_eq_number _ _ = False"

fun less_number :: "number \<Rightarrow> number \<Rightarrow> bool" where
  "less_number (Fin a) (Fin b) = (a < b)"
| "less_number NaN _ = False"
| "less_number _ NaN = False"
| "less_number NegInf NegInf = False"
| "less_number PosInf _ = False"
| "less_number NegInf _ = True"
| "less_number (Fin a) PosInf = True"
| "less_number _ _ = False"

instance ..

end

text \<open>\<^verbatim>\<open>a === b\<close> on numbers: \<^verbatim>\<open>NaN\<close> equals nothing, itself included.\<close>

definition strict_eq :: "number \<Rightarrow> number \<Rightarrow> bool" where
  "strict_eq a b = (a \<noteq> NaN \<and> b \<noteq> NaN \<and> a = b)"

text \<open>\<^verbatim>\<open>Math.max(...)\<close> and \<^verbatim>\<open>Math.min(...)\<close>: \<^verbatim>\<open>NaN\<close> if an argument is \<^verbatim>\<open>NaN\<close>.\<close>

fun max2 :: "number \<Rightarrow> number \<Rightarrow> number" where
  "max2 NaN _ = NaN"
| "max2 _ NaN = NaN"
| "max2 a b = (if a \<le> b then b else a)"

fun min2 :: "number \<Rightarrow> number \<Rightarrow> number" where
  "min2 NaN _ = NaN"
| "min2 _ NaN = NaN"
| "min2 a b = (if a \<le> b then a else b)"

definition Math_max :: "number list \<Rightarrow> number" where
  "Math_max xs = foldl max2 NegInf xs"

definition Math_min :: "number list \<Rightarrow> number" where
  "Math_min xs = foldl min2 PosInf xs"

text \<open>\<^verbatim>\<open>Math.round(x)\<close>: the nearest integer, a half rounded up.\<close>

fun Math_round :: "number \<Rightarrow> number" where
  "Math_round (Fin x) = Fin (of_int \<lfloor>x + 1 / 2\<rfloor>)"
| "Math_round x = x"

text \<open>\<^verbatim>\<open>a % b\<close>: the remainder of the division truncated towards zero; it has the sign
  of \<^verbatim>\<open>a\<close>.\<close>

definition trunc :: "real \<Rightarrow> int" where
  "trunc x = (if 0 \<le> x then \<lfloor>x\<rfloor> else \<lceil>x\<rceil>)"

fun js_rem :: "number \<Rightarrow> number \<Rightarrow> number" where
  "js_rem (Fin a) (Fin b) = (if b = 0 then NaN else Fin (a - b * of_int (trunc (a / b))))"
| "js_rem (Fin a) PosInf = Fin a"
| "js_rem (Fin a) NegInf = Fin a"
| "js_rem _ _ = NaN"

text \<open>\<^verbatim>\<open>Math.pow(x, y)\<close> for a finite exponent \<^verbatim>\<open>y\<close> (the source's only exponent is the
  literal \<^verbatim>\<open>2.4\<close>).\<close>

fun Math_pow :: "number \<Rightarrow> real \<Rightarrow> number" where
  "Math_pow (Fin x) y =
     (if 0 < x then Fin (x powr y)
      else if x = 0 then (if 0 < y then Fin 0 else if y < 0 then PosInf else Fin 1)
      else if y \<in> \<int> then Fin (power_int x \<lfloor>y\<rfloor>) else NaN)"
| "Math_pow NaN y = (if y = 0 then Fin 1 else NaN)"
| "Math_pow PosInf y = (if 0 < y then PosInf else if y < 0 then Fin 0 else Fin 1)"
| "Math_pow NegInf y =
     (if 0 < y then (if y \<in> \<int> \<and> odd \<lfloor>y\<rfloor> then NegInf else PosInf)
      else if y < 0 then Fin 0 else Fin 1)"

section \<open>Strings\<close>

text \<open>
  A JavaScript string is modelled as a list of characters (code units below 256).
  \<^verbatim>\<open>s.slice(a, b)\<close> with \<^verbatim>\<open>0 \<le> a \<le> b\<close> clamps both indices to the length.
\<close>

definition slice :: "nat \<Rightarrow> nat \<Rightarrow> string \<Rightarrow> string" where
  "slice a b s = take (b - a) (drop a s)"

definition padStart :: "nat \<Rightarrow> char \<Rightarrow> string \<Rightarrow> string" where
  "padStart n c s = replicate (n - length s) c @ s"

definition hexDigitValue :: "char \<Rightarrow> nat option" where
  "hexDigitValue c =
     (let n = (of_char c :: nat) in
      if 48 \<le> n \<and> n \<le> 57 then Some (n - 48)
      else if 97 \<le> n \<and> n \<le> 102 then Some (n - 87)
      else if 65 \<le> n \<and> n \<le> 70 then Some (n - 55)
      else None)"

definition isHexDigit :: "char \<Rightarrow> bool" where
  "isHexDigit c = (hexDigitValue c \<noteq> None)"

definition isWhiteSpace :: "char \<Rightarrow> bool" where
  "isWhiteSpace c = ((of_char c :: nat) \<in> {9, 10, 11, 12, 13, 32, 160})"

definition digitOf :: "char \<Rightarrow> nat" where
  "digitOf c = (case hexDigitValue c of Some d \<Rightarrow> d | None \<Rightarrow> 0)"

definition digitsValue :: "string \<Rightarrow> nat" where
  "digitsValue ds = foldl (\<lambda>acc c. 16 * acc + digitOf c) 0 ds"

fun stripSign :: "string \<Rightarrow> real \<times> string" where
  "stripSign (c # cs) =
     (if c = CHR ''-'' then (- 1, cs) else if c = CHR ''+'' then (1, cs) else (1, c # cs))"
| "stripSign [] = (1, [])"

fun stripPrefix0x :: "string \<Rightarrow> string" where
  "stripPrefix0x (c # d # cs) =
     (if c = CHR ''0'' \<and> (d = CHR ''x'' \<or> d = CHR ''X'') then cs else c # d # cs)"
| "stripPrefix0x cs = cs"

text \<open>
  \<^verbatim>\<open>parseInt(s, 16)\<close>: skip leading white space, read an optional sign and an optional
  \<^verbatim>\<open>0x\<close>, then the longest run of hexadecimal digits; \<^verbatim>\<open>NaN\<close> when that run is empty.
  Whatever follows the digits is ignored.
\<close>

definition parseInt16 :: "string \<Rightarrow> number" where
  "parseInt16 s =
     (let (sign, t) = stripSign (dropWhile isWhiteSpace s);
          ds = takeWhile isHexDigit (stripPrefix0x t)
      in if ds = [] then NaN else Fin (sign * real (digitsValue ds)))"

text \<open>\<^verbatim>\<open>n.toString(16)\<close> of an integer: lower-case digits, no padding, a minus sign
  for a negative number.\<close>

definition digitChar :: "nat \<Rightarrow> char" where
  "digitChar d = (if d < 10 then char_of (48 + d) else char_of (87 + d))"

fun natToHex :: "nat \<Rightarrow> string" where
  "natToHex n = (if n < 16 then [digitChar n] else natToHex (n div 16) @ [digitChar (n mod 16)])"

declare natToHex.simps [simp del]

definition intToHex :: "int \<Rightarrow> string" where
  "intToHex i = (if i < 0 then CHR ''-'' # natToHex (nat (- i)) else natToHex (nat i))"

text \<open>On a number; the source applies it to integral values only (quantised
  channels, results of \<^verbatim>\<open>Math.round\<close>), so the fraction digits are not modelled.\<close>

fun toString16 :: "number \<Rightarrow> string" where
  "toString16 (Fin x) = intToHex \<lfloor>x\<rfloor>"
| "toString16 NaN = ''NaN''"
| "toString16 PosInf = ''Infinity''"
| "toString16 NegInf = ''-Infinity''"

section \<open>Hex strings and channels\<close>

text \<open>
  \<^verbatim>\<open>
  function rgbToHex(r, g, b) {
      return '#' + [r, g, b].map(x => {
          const hex = x.toString(16);
          return hex.length === 1 ? '0' + hex : hex;
      }).join('');
  }
  \<close>
\<close>

text \<open>The function mapped over the three channels.\<close>

definition channelHex :: "number \<Rightarrow> string" where
  "channelHex x = (let hex = toString16 x in if length hex = 1 then CHR ''0'' # hex else hex)"

definition rgbToHex :: "number \<Rightarrow> number \<Rightarrow> number \<Rightarrow> string" where
  "rgbToHex r g b = CHR ''#'' # concat (map channelHex [r, g, b])"

text \<open>
  The source has no separate parser: \<^verbatim>\<open>getContrastColor\<close>, \<^verbatim>\<open>hexToHsl\<close> and
  \<^verbatim>\<open>getLuminance\<close> each start with
  \<^verbatim>\<open>parseInt(hex.slice(1, 3), 16)\<close>, \<^verbatim>\<open>parseInt(hex.slice(3, 5), 16)\<close>,
  \<^verbatim>\<open>parseInt(hex.slice(5, 7), 16)\<close>.
\<close>

definition hexChannels :: "string \<Rightarrow> number \<times> number \<times> number" where
  "hexChannels hex =
     (parseInt16 (slice 1 3 hex), parseInt16 (slice 3 5 hex), parseInt16 (slice 5 7 hex))"

text \<open>
  \<^verbatim>\<open>
  function getContrastColor(hex) {
      const r = parseInt(hex.slice(1, 3), 16);
      const g = parseInt(hex.slice(3, 5), 16);
      const b = parseInt(hex.slice(5, 7), 16);
      const luminance = (0.299 * r + 0.587 * g + 0.114 * b) / 255;
      return luminance > 0.5 ? '#000000' : '#ffffff';
  }
  \<close>
\<close>

definition getContrastColor :: "string \<Rightarrow> string" where
  "getContrastColor hex =
     (let r = parseInt16 (slice 1 3 hex);
          g = parseInt16 (slice 3 5 hex);
          b = parseInt16 (slice 5 7 hex);
          luminance = (Fin 0.299 * r + Fin 0.587 * g + Fin 0.114 * b) / Fin 255
      in if Fin 0.5 < luminance then ''#000000'' else ''#ffffff'')"

section \<open>Errors\<close>

text \<open>
  The only exception the modelled code can raise is the \<^verbatim>\<open>TypeError\<close> of a property
  read on \<^verbatim>\<open>undefined\<close>. The other three values are the error kinds of the
  specification; no function of the source produces them. Each top-level operation
  returns \<open>Inl\<close> of an error or \<open>Inr\<close> of what it hands to the display.
\<close>

datatype error = TypeError | InvalidFormat | UnsupportedSchemeKind | EmptyPalette

section \<open>HSL conversion\<close>

record hsl =
  hsl_h :: number
  hsl_s :: number
  hsl_l :: number

text \<open>
  \<^verbatim>\<open>
  function hexToHsl(hex) {
      let r = parseInt(hex.slice(1, 3), 16) / 255;
      let g = parseInt(hex.slice(3, 5), 16) / 255;
      let b = parseInt(hex.slice(5, 7), 16) / 255;
      const max = Math.max(r, g, b);
      const min = Math.min(r, g, b);
      let h, s, l = (max + min) / 2;
      if (max === min) {
          h = s = 0;
      } else {
          const d = max - min;
          s = l > 0.5 ? d / (2 - max - min) : d / (max + min);
          switch (max) {
              case r: h = ((g - b) / d + (g < b ? 6 : 0)) / 6; break;
              case g: h = ((b - r) / d + 2) / 6; break;
              case b: h = ((r - g) / d + 4) / 6; break;
          }
      }
      return { h: h * 360, s: s * 100, l: l * 100 };
  }
  \<close>
  When no \<^verbatim>\<open>case\<close> matches (\<^verbatim>\<open>max\<close> is \<^verbatim>\<open>NaN\<close>), \<^verbatim>\<open>h\<close> stays \<^verbatim>\<open>undefined\<close> and
  \<^verbatim>\<open>h * 360\<close> is \<^verbatim>\<open>NaN\<close>.
\<close>

definition hexToHsl :: "string \<Rightarrow> hsl" where
  "hexToHsl hex =
     (let r = parseInt16 (slice 1 3 hex) / Fin 255;
          g = parseInt16 (slice 3 5 hex) / Fin 255;
          b = parseInt16 (slice 5 7 hex) / Fin 255;
          mx = Math_max [r, g, b];
          mn = Math_min [r, g, b];
          l = (mx + mn) / Fin 2
      in if strict_eq mx mn
         then \<lparr>hsl_h = Fin 0 * Fin 360, hsl_s = Fin 0 * Fin 100, hsl_l = l * Fin 100\<rparr>
         else
           (let d = mx - mn;
                s = (if Fin 0.5 < l then d / (Fin 2 - mx - mn) else d / (mx + mn));
                h = (if strict_eq mx r then ((g - b) / d + (if g < b then Fin 6 else Fin 0)) / Fin 6
                     else if strict_eq mx g then ((b - r) / d + Fin 2) / Fin 6
                     else if strict_eq mx b then ((r - g) / d + Fin 4) / Fin 6
                     else NaN)
            in \<lparr>hsl_h = h * Fin 360, hsl_s = s * Fin 100, hsl_l = l * Fin 100\<rparr>))"

text \<open>
  \<^verbatim>\<open>
  function hslToHex(h, s, l) {
      s /= 100;
      l /= 100;
      const a = s * Math.min(l, 1 - l);
      const f = n => {
          const k = (n + h / 30) % 12;
          const color = l - a * Math.max(Math.min(k - 3, 9 - k, 1), -1);
          return Math.round(255 * color).toString(16).padStart(2, '0');
      };
      return `#${f(0)}${f(8)}${f(4)}`;
  }
  \<close>
\<close>

definition hslToHex :: "number \<Rightarrow> number \<Rightarrow> number \<Rightarrow> string" where
  "hslToHex h s0 l0 =
     (let s = s0 / Fin 100;
          l = l0 / Fin 100;
          a = s * Math_min [l, Fin 1 - l];
          f = (\<lambda>n. let k = js_rem (n + h / Fin 30) (Fin 12);
                      color = l - a * Math_max [Math_min [k - Fin 3, Fin 9 - k, Fin 1], Fin (- 1)]
                  in padStart 2 (CHR ''0'') (toString16 (Math_round (Fin 255 * color))))
      in CHR ''#'' # f (Fin 0) @ f (Fin 8) @ f (Fin 4))"

section \<open>Scheme generator\<close>

record scheme_entry =
  entry_hex :: string
  entry_name :: string

text \<open>
  \<^verbatim>\<open>generateScheme()\<close> reads the base colour (\<^verbatim>\<open>baseColor.value\<close>) and the kind
  (\<^verbatim>\<open>schemeType.value\<close>) from the page; here they are the two arguments. The result is
  the list stored in \<^verbatim>\<open>currentScheme\<close> and passed to \<^verbatim>\<open>displayScheme\<close>. The list is
  reset to \<^verbatim>\<open>[]\<close> before the \<^verbatim>\<open>switch\<close>, which has no \<^verbatim>\<open>default\<close> branch.
\<close>

definition generateScheme :: "string \<Rightarrow> string \<Rightarrow> error + scheme_entry list" where
  "generateScheme hex type =
     (let c = hexToHsl hex; h = hsl_h c; s = hsl_s c; l = hsl_l c in
      if type = ''complementary'' then Inr
        [\<lparr>entry_hex = hex, entry_name = ''Base''\<rparr>,
         \<lparr>entry_hex = hslToHex (js_rem (h + Fin 180) (Fin 360)) s l, entry_name = ''Complementary''\<rparr>]
      else if type = ''analogous'' then Inr
        [\<lparr>entry_hex = hslToHex (js_rem (h - Fin 30 + Fin 360) (Fin 360)) s l, entry_name = ''Analogous 1''\<rparr>,
         \<lparr>entry_hex = hslToHex (js_rem (h - Fin 15 + Fin 360) (Fin 360)) s l, entry_name = ''Analogous 2''\<rparr>,
         \<lparr>entry_hex = hex, entry_name = ''Base''\<rparr>,
         \<lparr>entry_hex = hslToHex (js_rem (h + Fin 15) (Fin 360)) s l, entry_name = ''Analogous 3''\<rparr>,
         \<lparr>entry_hex = hslToHex (js_rem (h + Fin 30) (Fin 360)) s l, entry_name = ''Analogous 4''\<rparr>]
      else if type = ''triadic'' then Inr
        [\<lparr>entry_hex = hex, entry_name = ''Primary''\<rparr>,
         \<lparr>entry_hex = hslToHex (js_rem (h + Fin 120) (Fin 360)) s l, entry_name = ''Secondary''\<rparr>,
         \<lparr>entry_hex = hslToHex (js_rem (h + Fin 240) (Fin 360)) s l, entry_name = ''Tertiary''\<rparr>]
      else if type = ''tetradic'' then Inr
        [\<lparr>entry_hex = hex, entry_name = ''Primary''\<rparr>,
         \<lparr>entry_hex = hslToHex (js_rem (h + Fin 90) (Fin 360)) s l, entry_name = ''Secondary''\<rparr>,
         \<lparr>entry_hex = hslToHex (js_rem (h + Fin 180) (Fin 360)) s l, entry_name = ''Tertiary''\<rparr>,
         \<lparr>entry_hex = hslToHex (js_rem (h + Fin 270) (Fin 360)) s l, entry_name = ''Quaternary''\<rparr>]
      else if type = ''monochromatic'' then Inr
        [\<lparr>entry_hex = hslToHex h s (Fin 20), entry_name = ''Dark''\<rparr>,
         \<lparr>entry_hex = hslToHex h s (Fin 40), entry_name = ''Medium Dark''\<rparr>,
         \<lparr>entry_hex = hex, entry_name = ''Base''\<rparr>,
         \<lparr>entry_hex = hslToHex h s (Fin 70), entry_name = ''Medium Light''\<rparr>,
         \<lparr>entry_hex = hslToHex h s (Fin 90), entry_name = ''Light''\<rparr>]
      else if type = ''split-complementary'' then Inr
        [\<lparr>entry_hex = hex, entry_name = ''Base''\<rparr>,
         \<lparr>entry_hex = hslToHex (js_rem (h + Fin 150) (Fin 360)) s l, entry_name = ''Split 1''\<rparr>,
         \<lparr>entry_hex = hslToHex (js_rem (h + Fin 210) (Fin 360)) s l, entry_name = ''Split 2''\<rparr>]
      else Inr [])"

section \<open>Contrast checker\<close>

text \<open>
  \<^verbatim>\<open>
  function getLuminance(hex) {
      const r = parseInt(hex.slice(1, 3), 16) / 255;
      const g = parseInt(hex.slice(3, 5), 16) / 255;
      const b = parseInt(hex.slice(5, 7), 16) / 255;
      const a = [r, g, b].map(v => {
          return v <= 0.03928 ? v / 12.92 : Math.pow((v + 0.055) / 1.055, 2.4);
      });
      return a[0] * 0.2126 + a[1] * 0.7152 + a[2] * 0.0722;
  }
  \<close>
\<close>

definition getLuminance :: "string \<Rightarrow> number" where
  "getLuminance hex =
     (let r = parseInt16 (slice 1 3 hex) / Fin 255;
          g = parseInt16 (slice 3 5 hex) / Fin 255;
          b = parseInt16 (slice 5 7 hex) / Fin 255;
          a = map (\<lambda>v. if v \<le> Fin 0.03928 then v / Fin 12.92
                        else Math_pow ((v + Fin 0.055) / Fin 1.055) 2.4) [r, g, b]
      in a ! 0 * Fin 0.2126 + a ! 1 * Fin 0.7152 + a ! 2 * Fin 0.0722)"

text \<open>
  \<^verbatim>\<open>checkContrast()\<close> reads the two colours from the page and writes the ratio and the
  four PASS/FAIL labels to it; the model returns them.
  \<^verbatim>\<open>
  const fgLum = getLuminance(foreground);
  const bgLum = getLuminance(background);
  const ratio = (Math.max(fgLum, bgLum) + 0.05) / (Math.min(fgLum, bgLum) + 0.05);
  ... 'aaNormal'  ... ratio >= 4.5 ? 'PASS' : 'FAIL'
  ... 'aaLarge'   ... ratio >= 3   ? 'PASS' : 'FAIL'
  ... 'aaaNormal' ... ratio >= 7   ? 'PASS' : 'FAIL'
  ... 'aaaLarge'  ... ratio >= 4.5 ? 'PASS' : 'FAIL'
  \<close>
\<close>

record contrast_result =
  ratio :: number
  aaNormal :: bool
  aaLarge :: bool
  aaaNormal :: bool
  aaaLarge :: bool

definition checkContrast :: "string \<Rightarrow> string \<Rightarrow> error + contrast_result" where
  "checkContrast foreground background =
     (let fgLum = getLuminance foreground;
          bgLum = getLuminance background;
          ratio = (Math_max [fgLum, bgLum] + Fin 0.05) / (Math_min [fgLum, bgLum] + Fin 0.05)
      in Inr \<lparr>ratio = ratio,
              aaNormal = (Fin 4.5 \<le> ratio),
              aaLarge = (Fin 3 \<le> ratio),
              aaaNormal = (Fin 7 \<le> ratio),
              aaaLarge = (Fin 4.5 \<le> ratio)\<rparr>)"

section \<open>Palette extractor\<close>

text \<open>
  \<^verbatim>\<open>extractColors\<close> draws the image on a canvas (scaled down when it has more than
  250000 pixels) and reads the pixels back with \<^verbatim>\<open>getImageData\<close>; the model starts from
  that byte array, four bytes (red, green, blue, alpha) per pixel.
  \<^verbatim>\<open>
  const colorMap = {};
  for (let i = 0; i < imageData.length; i += 40) {
      const r = imageData[i];
      const g = imageData[i + 1];
      const b = imageData[i + 2];
      const alpha = imageData[i + 3];
      if (alpha < 128) continue;
      const qr = Math.round(r / 16) * 16;
      const qg = Math.round(g / 16) * 16;
      const qb = Math.round(b / 16) * 16;
      const key = `${qr},${qg},${qb}`;
      colorMap[key] = (colorMap[key] || 0) + 1;
  }
  \<close>
  The key is modelled by the three numbers it spells
  (\<^verbatim>\<open>color.split(',').map(Number)\<close> reads them back). \<^verbatim>\<open>colorMap\<close> is an object with
  non-index string keys, which \<^verbatim>\<open>Object.entries\<close> lists in insertion order: an
  association list, a new key appended at the end.
\<close>

type_synonym bucket_key = "number \<times> number \<times> number"

type_synonym color_map = "(bucket_key \<times> nat) list"

definition quantize :: "8 word \<Rightarrow> number" where
  "quantize v = Math_round (Fin (real (unat v)) / Fin 16) * Fin 16"

fun increment :: "bucket_key \<Rightarrow> color_map \<Rightarrow> color_map" where
  "increment key [] = [(key, 1)]"
| "increment key ((k, n) # m) = (if k = key then (k, n + 1) # m else (k, n) # increment key m)"

text \<open>The loop: the list is what remains of \<^verbatim>\<open>imageData\<close> from index \<^verbatim>\<open>i\<close> on. The
  number of bytes is a multiple of four, so a remainder that is not empty holds a
  whole pixel.\<close>

fun sampleLoop :: "8 word list \<Rightarrow> color_map \<Rightarrow> color_map" where
  "sampleLoop (r # g # b # alpha # rest) colorMap =
     sampleLoop (drop 36 rest)
       (if alpha < 128 then colorMap
        else increment (quantize r, quantize g, quantize b) colorMap)"
| "sampleLoop _ colorMap = colorMap"

text \<open>
  \<^verbatim>\<open>
  const sortedColors = Object.entries(colorMap)
      .sort((a, b) => b[1] - a[1])
      .map(([color, count]) => { ... return { r, g, b, count }; });
  \<close>
  \<^verbatim>\<open>Array.prototype.sort\<close> is stable.
\<close>

definition sortedColors :: "8 word list \<Rightarrow> (bucket_key \<times> nat) list" where
  "sortedColors imageData = sort_key (\<lambda>e. - int (snd e)) (sampleLoop imageData [])"

text \<open>Decimal digits of an integer, for the \<^verbatim>\<open>rgb(r, g, b)\<close> label.\<close>

fun natToDec :: "nat \<Rightarrow> string" where
  "natToDec n = (if n < 10 then [digitChar n] else natToDec (n div 10) @ [digitChar (n mod 10)])"

declare natToDec.simps [simp del]

fun toString10 :: "number \<Rightarrow> string" where
  "toString10 (Fin x) = (if x < 0 then CHR ''-'' # natToDec (nat (- \<lfloor>x\<rfloor>)) else natToDec (nat \<lfloor>x\<rfloor>))"
| "toString10 NaN = ''NaN''"
| "toString10 PosInf = ''Infinity''"
| "toString10 NegInf = ''-Infinity''"

record palette_color =
  color_hex :: string
  color_rgb :: string

record palette =
  dominantHex :: string
  extractedColors :: "palette_color list"

text \<open>
  \<^verbatim>\<open>
  const dominant = sortedColors[0];
  const dominantHex = rgbToHex(dominant.r, dominant.g, dominant.b);
  extractedColors = sortedColors.slice(0, 10).map(c => ({
      hex: rgbToHex(c.r, c.g, c.b),
      rgb: `rgb(${c.r}, ${c.g}, ${c.b})`
  }));
  \<close>
  With no bucket, \<^verbatim>\<open>sortedColors[0]\<close> is \<^verbatim>\<open>undefined\<close> and \<^verbatim>\<open>dominant.r\<close> throws.
\<close>

definition paletteColor :: "bucket_key \<times> nat \<Rightarrow> palette_color" where
  "paletteColor c = (case c of ((r, g, b), count) \<Rightarrow>
     \<lparr>color_hex = rgbToHex r g b,
      color_rgb = ''rgb('' @ toString10 r @ '', '' @ toString10 g @ '', '' @ toString10 b @ '')''\<rparr>)"

definition extractColors :: "8 word list \<Rightarrow> error + palette" where
  "extractColors imageData =
     (case sortedColors imageData of
        [] \<Rightarrow> Inl TypeError
      | ((r, g, b), count) # _ \<Rightarrow>
          Inr \<lparr>dominantHex = rgbToHex r g b,
               extractedColors = map paletteColor (take 10 (sortedColors imageData))\<rparr>)"

section \<open>Notions used in the properties\<close>

text \<open>A colour string: \<^verbatim>\<open>#\<close> and six hexadecimal digits, of either case.\<close>

definition isHexColor :: "string \<Rightarrow> bool" where
  "isHexColor x = (case x of [] \<Rightarrow> False
     | c # cs \<Rightarrow> c = CHR ''#'' \<and> length cs = 6 \<and> list_all isHexDigit cs)"


text \<open>The colour that six hexadecimal digits denote: two digits per channel.\<close>

definition channelValue :: "char \<Rightarrow> char \<Rightarrow> nat" where
  "channelValue c d = 16 * digitOf c + digitOf d"

fun digitsColor :: "string \<Rightarrow> nat \<times> nat \<times> nat" where
  "digitsColor [a, b, c, d, e, f] = (channelValue a b, channelValue c d, channelValue e f)"
| "digitsColor _ = (0, 0, 0)"

definition correspondingColor :: "string \<Rightarrow> nat \<times> nat \<times> nat" where
  "correspondingColor x = (case x of [] \<Rightarrow> (0, 0, 0)
     | c # cs \<Rightarrow> if c = CHR ''#'' then digitsColor cs else digitsColor (c # cs))"

text \<open>Upper-case ASCII letters replaced by their lower-case forms.\<close>

definition lowerCase :: "char \<Rightarrow> char" where
  "lowerCase c = (let n = (of_char c :: nat) in if 65 \<le> n \<and> n \<le> 90 then char_of (n + 32) else c)"

text \<open>A colour of the data model: three integer channels between 0 and 255; its
  external form is what \<^verbatim>\<open>rgbToHex\<close> renders.\<close>

definition colorHex :: "nat \<Rightarrow> nat \<Rightarrow> nat \<Rightarrow> string" where
  "colorHex r g b = rgbToHex (Fin (real r)) (Fin (real g)) (Fin (real b))"

text \<open>The six scheme kinds of the specification.\<close>

definition recognizedKinds :: "string list" where
  "recognizedKinds = [''complementary'', ''analogous'', ''triadic'', ''tetradic'',
                      ''monochromatic'', ''split-complementary'']"

text \<open>The pixels the sampling pass looks at (every tenth pixel of the array), in the
  order of the pass, and the bucket keys of those that are not skipped.\<close>

type_synonym pixel = "8 word \<times> 8 word \<times> 8 word \<times> 8 word"

fun sampledPixels :: "8 word list \<Rightarrow> pixel list" where
  "sampledPixels (r # g # b # alpha # rest) = (r, g, b, alpha) # sampledPixels (drop 36 rest)"
| "sampledPixels _ = []"

definition isOpaque :: "pixel \<Rightarrow> bool" where
  "isOpaque p = (case p of (r, g, b, alpha) \<Rightarrow> \<not> alpha < 128)"

definition bucketOf :: "pixel \<Rightarrow> bucket_key" where
  "bucketOf p = (case p of (r, g, b, alpha) \<Rightarrow> (quantize r, quantize g, quantize b))"

definition opaqueKeys :: "8 word list \<Rightarrow> bucket_key list" where
  "opaqueKeys imageData = map bucketOf (filter isOpaque (sampledPixels imageData))"

text \<open>The position of the first occurrence of a key in the pass (the length of the
  pass if it never occurs).\<close>

definition firstIndex :: "'a \<Rightarrow> 'a list \<Rightarrow> nat" where
  "firstIndex k ks = length (takeWhile (\<lambda>x. x \<noteq> k) ks)"

text \<open>The position in the pass at which the running count of a key reaches \<open>c\<close>, for
  \<open>c \<ge> 1\<close>: that of its \<open>c\<close>-th occurrence (the length of the pass if there is none).\<close>

fun reachIndex :: "'a \<Rightarrow> nat \<Rightarrow> 'a list \<Rightarrow> nat" where
  "reachIndex k c [] = 0"
| "reachIndex k c (x # xs) =
     (if x = k then (if c \<le> 1 then 0 else Suc (reachIndex k (c - 1) xs))
      else Suc (reachIndex k c xs))"

text \<open>The order of the palette: a larger count first, and among equal counts the key
  that occurs first in the pass.\<close>

definition paletteOrder :: "bucket_key list \<Rightarrow> bucket_key \<times> nat \<Rightarrow> bucket_key \<times> nat \<Rightarrow> bool" where
  "paletteOrder keys e1 e2 =
     (snd e2 < snd e1 \<or> (snd e1 = snd e2 \<and> firstIndex (fst e1) keys < firstIndex (fst e2) keys))"

text \<open>What the sampling pass maintains, after the keys \<open>ks\<close>: one entry per key that
  occurred, in the order of first occurrence, each with its number of occurrences.\<close>

definition mapInv :: "bucket_key list \<Rightarrow> color_map \<Rightarrow> bool" where
  "mapInv ks m =
     (distinct (map fst m) \<and> set (map fst m) = set ks
      \<and> sorted_wrt (\<lambda>a b. firstIndex a ks < firstIndex b ks) (map fst m)
      \<and> (\<forall>x. map_of m x = (if x \<in> set ks then Some (count_list ks x) else None)))"

text \<open>An image of 31 pixels in one row; the pass samples pixels 0, 10, 20 and 30, which
  are black, dark grey, dark grey, black, all opaque.\<close>

definition tieImage :: "8 word list" where
  "tieImage = [0, 0, 0, 255] @ replicate 36 0 @ [16, 16, 16, 255] @ replicate 36 0 @
              [16, 16, 16, 255] @ replicate 36 0 @ [0, 0, 0, 255]"

subsection \<open>The conversions on real numbers\<close>







subsection \<open>The table of schemes\<close>





subsection \<open>Relative luminance\<close>

text \<open>
  The WCAG 2.1 formula as the specification words it: each channel divided by 255,
  mapped linearly (divided by 12.92) when at most 0.03928 and by
  \<open>((v + 0.055) / 1.055) ^ 2.4\<close> otherwise, the three results weighted 0.2126, 0.7152,
  0.0722.
\<close>

definition linearize :: "real \<Rightarrow> real" where
  "linearize v = (if v \<le> 0.03928 then v / 12.92 else ((v + 0.055) / 1.055) powr 2.4)"

definition relativeLuminance :: "nat \<times> nat \<times> nat \<Rightarrow> real" where
  "relativeLuminance c = (case c of (r, g, b) \<Rightarrow>
     0.2126 * linearize (real r / 255) + 0.7152 * linearize (real g / 255)
       + 0.0722 * linearize (real b / 255))"

definition contrastRatio :: "real \<Rightarrow> real \<Rightarrow> real" where
  "contrastRatio l1 l2 = (max l1 l2 + 0.05) / (min l1 l2 + 0.05)"

section \<open>Parsing and rendering hexadecimal digits\<close>

lemma isHexDigit_cases:
  assumes "isHexDigit c"
  shows "(48 \<le> (of_char c :: nat) \<and> (of_char c :: nat) \<le> 57)
       \<or> (97 \<le> (of_char c :: nat) \<and> (of_char c :: nat) \<le> 102)
       \<or> (65 \<le> (of_char c :: nat) \<and> (of_char c :: nat) \<le> 70)"
  using assms by (auto simp: isHexDigit_def hexDigitValue_def Let_def split: if_splits)

lemma digitOf_less: "digitOf c < 16"
  by (auto simp: digitOf_def hexDigitValue_def Let_def)

lemma digitChar_digitOf: "isHexDigit c \<Longrightarrow> digitChar (digitOf c) = lowerCase c"
  by (drule isHexDigit_cases)
     (auto simp: digitOf_def hexDigitValue_def digitChar_def lowerCase_def Let_def)

lemma isHexDigit_not_space: "isHexDigit c \<Longrightarrow> \<not> isWhiteSpace c"
  by (drule isHexDigit_cases) (auto simp: isWhiteSpace_def)

lemma isHexDigit_not_sign:
  "isHexDigit c \<Longrightarrow> c \<noteq> CHR ''-'' \<and> c \<noteq> CHR ''+'' \<and> c \<noteq> CHR ''x'' \<and> c \<noteq> CHR ''X''"
  by (drule isHexDigit_cases) auto

lemma parseInt16_pair:
  assumes "isHexDigit c" "isHexDigit d"
  shows "parseInt16 [c, d] = Fin (real (channelValue c d))"
  using assms isHexDigit_not_space[OF assms(1)] isHexDigit_not_sign[OF assms(1)]
    isHexDigit_not_sign[OF assms(2)]
  by (simp add: parseInt16_def digitsValue_def channelValue_def)

lemma digitChar_values:
  "digitChar 0 = CHR ''0''" "digitChar 1 = CHR ''1''" "digitChar 2 = CHR ''2''"
  "digitChar 3 = CHR ''3''" "digitChar 4 = CHR ''4''" "digitChar 5 = CHR ''5''"
  "digitChar 6 = CHR ''6''" "digitChar 7 = CHR ''7''" "digitChar 8 = CHR ''8''"
  "digitChar 9 = CHR ''9''" "digitChar 10 = CHR ''a''" "digitChar 11 = CHR ''b''"
  "digitChar 12 = CHR ''c''" "digitChar 13 = CHR ''d''" "digitChar 14 = CHR ''e''"
  "digitChar 15 = CHR ''f''" "digitChar (Suc 0) = CHR ''1''"
  by code_simp+

lemmas parse_eval = parseInt16_def slice_def isWhiteSpace_def isHexDigit_def hexDigitValue_def
  digitsValue_def digitOf_def

lemma toString16_nat: "toString16 (Fin (real n)) = natToHex n"
  by (simp add: intToHex_def)

lemma natToHex_two:
  assumes "a < 16" "b < 16"
  shows "(let hex = natToHex (16 * a + b) in if length hex = 1 then CHR ''0'' # hex else hex)
    = [digitChar a, digitChar b]"
proof (cases "a = 0")
  case True
  then show ?thesis using assms by (simp add: natToHex.simps[of b] digitChar_values)
next
  case False
  then have "\<not> 16 * a + b < 16" by simp
  moreover have "(16 * a + b) div 16 = a" "(16 * a + b) mod 16 = b" using assms by simp_all
  ultimately show ?thesis using assms
    by (simp add: natToHex.simps[of "16 * a + b"] natToHex.simps[of a])
qed


lemma channelHex_channelValue:
  "channelHex (Fin (real (channelValue c d))) = [digitChar (digitOf c), digitChar (digitOf d)]"
  using natToHex_two[OF digitOf_less[of c] digitOf_less[of d]]
  by (simp only: toString16_nat channelValue_def channelHex_def)

lemma isHexColor_iff:
  "isHexColor x \<longleftrightarrow>
     (\<exists>a b c d e f. x = [CHR ''#'', a, b, c, d, e, f] \<and> isHexDigit a \<and> isHexDigit b
        \<and> isHexDigit c \<and> isHexDigit d \<and> isHexDigit e \<and> isHexDigit f)"
  by (auto simp: isHexColor_def length_Suc_conv eval_nat_numeral split: list.splits)

lemma hexChannels_color:
  assumes "isHexColor x"
  shows "hexChannels x =
    (case correspondingColor x of (r, g, b) \<Rightarrow> (Fin (real r), Fin (real g), Fin (real b)))"
  using assms
  by (auto simp: isHexColor_iff hexChannels_def slice_def correspondingColor_def parseInt16_pair)


section \<open>Scheme kinds outside the six\<close>

text \<open>
  C5. The specification asks for the error \<^verbatim>\<open>UnsupportedSchemeKind\<close> on a kind outside
  the six. The \<^verbatim>\<open>switch\<close> of \<^verbatim>\<open>generateScheme\<close> has no \<^verbatim>\<open>default\<close> branch: at the kind
  \<^verbatim>\<open>rainbow\<close> it returns the empty scheme and no error.
\<close>

theorem generateScheme_unknown_kind_counterexample:
  "''rainbow'' \<notin> set recognizedKinds
   \<and> generateScheme ''#ff0000'' ''rainbow'' = Inr []
   \<and> generateScheme ''#ff0000'' ''rainbow'' \<noteq> Inl UnsupportedSchemeKind"
  by (simp add: generateScheme_def recognizedKinds_def Let_def)

text \<open>
  C5, as the code has it: for every base string and every kind that is not one of the
  six, \<^verbatim>\<open>generateScheme\<close> yields the empty scheme (\<^verbatim>\<open>currentScheme\<close> keeps the \<^verbatim>\<open>[]\<close> it
  was reset to) and raises nothing.
\<close>

theorem generateScheme_unknown_kind:
  "kind \<notin> set recognizedKinds \<Longrightarrow> generateScheme hex kind = Inr []"
  by (simp add: generateScheme_def recognizedKinds_def Let_def)

theorem generateScheme_unknown_kind_witness:
  "''sepia'' \<notin> set recognizedKinds \<and> generateScheme ''#3498db'' ''sepia'' = Inr []"
  using generateScheme_unknown_kind [of "''sepia''" "''#3498db''"]
  by (simp add: recognizedKinds_def)

section \<open>Parsing colour strings\<close>




text \<open>
  C7. The specification: for every valid colour string \<^verbatim>\<open>x\<close>, upper-case digits
  included, parsing and rendering with \<^verbatim>\<open>rgbToHex\<close> gives \<^verbatim>\<open>x\<close> back exactly.
  \<^verbatim>\<open>toString(16)\<close> writes lower-case digits, so \<^verbatim>\<open>#FF00AB\<close> comes back as \<^verbatim>\<open>#ff00ab\<close>.
\<close>

theorem hex_roundtrip_counterexample:
  "isHexColor ''#FF00AB''
   \<and> (case hexChannels ''#FF00AB'' of (r, g, b) \<Rightarrow> rgbToHex r g b) = ''#ff00ab''
   \<and> (case hexChannels ''#FF00AB'' of (r, g, b) \<Rightarrow> rgbToHex r g b) \<noteq> ''#FF00AB''"
  by (simp add: isHexColor_def hexChannels_def rgbToHex_def channelHex_def intToHex_def natToHex.simps
        digitChar_values parse_eval)

text \<open>
  C7, as the code has it: for every string \<^verbatim>\<open>x\<close> made of \<^verbatim>\<open>#\<close> and six hexadecimal
  digits, parsing and rendering gives \<^verbatim>\<open>x\<close> with its letters in lower case; that is
  \<^verbatim>\<open>x\<close> itself when \<^verbatim>\<open>x\<close> has no upper-case digit.
\<close>

theorem hex_roundtrip:
  assumes "isHexColor x"
  shows "(case hexChannels x of (r, g, b) \<Rightarrow> rgbToHex r g b) = map lowerCase x"
proof -
  have "lowerCase CHR ''#'' = CHR ''#''"
    by (simp add: lowerCase_def)
  then show ?thesis
    using assms
    by (auto simp: isHexColor_iff hexChannels_def slice_def parseInt16_pair rgbToHex_def
          channelHex_channelValue digitChar_digitOf)
qed

theorem hex_roundtrip_witness:
  "isHexColor ''#3498db'' \<and> map lowerCase ''#3498db'' = ''#3498db''
   \<and> (case hexChannels ''#3498db'' of (r, g, b) \<Rightarrow> rgbToHex r g b) = ''#3498db''"
  using hex_roundtrip [of "''#3498db''"]
  by (simp add: isHexColor_def lowerCase_def parse_eval)

section \<open>The sampling pass\<close>

lemma sampleLoop_fold:
  "sampleLoop d m = foldl (\<lambda>m k. increment k m) m (opaqueKeys d)"
  by (induction d m rule: sampleLoop.induct)
     (simp_all add: opaqueKeys_def isOpaque_def bucketOf_def)

lemma increment_keys:
  "map fst (increment k m) = (if k \<in> set (map fst m) then map fst m else map fst m @ [k])"
  by (induction m) (auto simp: rev_image_eqI)

lemma increment_count:
  "map_of (increment k m) x =
     (if x = k then Some (case map_of m k of None \<Rightarrow> 1 | Some n \<Rightarrow> n + 1) else map_of m x)"
  by (induction m) auto

lemma firstIndex_snoc_old: "x \<in> set ks \<Longrightarrow> firstIndex x (ks @ [k]) = firstIndex x ks"
  by (simp add: firstIndex_def takeWhile_append1)

lemma firstIndex_less: "x \<in> set ks \<Longrightarrow> firstIndex x ks < length ks"
  by (induction ks) (auto simp: firstIndex_def)

lemma firstIndex_snoc_new: "k \<notin> set ks \<Longrightarrow> firstIndex k (ks @ [k]) = length ks"
  by (induction ks) (auto simp: firstIndex_def)

lemma mapInv_step:
  assumes inv: "mapInv ks m"
  shows "mapInv (ks @ [k]) (increment k m)"
proof (cases "k \<in> set ks")
  case True
  have keys: "map fst (increment k m) = map fst m"
    using inv True by (simp add: increment_keys mapInv_def)
  have "sorted_wrt (\<lambda>a b. firstIndex a (ks @ [k]) < firstIndex b (ks @ [k])) (map fst m)"
    using inv by (auto simp: mapInv_def firstIndex_snoc_old intro: sorted_wrt_mono_rel[rotated])
  then show ?thesis
    using inv True unfolding mapInv_def keys
    by (auto simp: increment_count)
next
  case False
  have keys: "map fst (increment k m) = map fst m @ [k]"
    using inv False by (simp add: increment_keys mapInv_def)
  have "sorted_wrt (\<lambda>a b. firstIndex a (ks @ [k]) < firstIndex b (ks @ [k])) (map fst m)"
    using inv by (auto simp: mapInv_def firstIndex_snoc_old intro: sorted_wrt_mono_rel[rotated])
  moreover have "\<forall>x \<in> set (map fst m). firstIndex x (ks @ [k]) < firstIndex k (ks @ [k])"
    using inv False
    by (auto simp: mapInv_def firstIndex_snoc_old firstIndex_snoc_new firstIndex_less)
  ultimately have
    "sorted_wrt (\<lambda>a b. firstIndex a (ks @ [k]) < firstIndex b (ks @ [k])) (map fst m @ [k])"
    by (simp add: sorted_wrt_append)
  then show ?thesis
    using inv False unfolding mapInv_def keys
    by (auto simp: increment_count)
qed

lemma mapInv_fold: "mapInv ks (foldl (\<lambda>m k. increment k m) [] ks)"
proof (induction ks rule: rev_induct)
  case Nil
  show ?case by (simp add: mapInv_def)
next
  case (snoc k ks)
  then show ?case by (simp add: mapInv_step)
qed

lemma mapInv_sampleLoop: "mapInv (opaqueKeys d) (sampleLoop d [])"
  by (simp add: sampleLoop_fold mapInv_fold)

lemma insort_paletteOrder:
  assumes "sorted_wrt (paletteOrder keys) ys"
    and "\<forall>y \<in> set ys. firstIndex (fst x) keys < firstIndex (fst y) keys"
  shows "sorted_wrt (paletteOrder keys) (insort_key (\<lambda>e. - int (snd e)) x ys)"
  using assms
proof (induction ys)
  case Nil
  then show ?case by simp
next
  case (Cons y ys)
  show ?case
  proof (cases "snd y \<le> snd x")
    case True
    have "paletteOrder keys x z" if "z \<in> set (y # ys)" for z
      using that Cons.prems True by (auto simp: paletteOrder_def)
    then show ?thesis using True Cons.prems by simp
  next
    case False
    then have "paletteOrder keys y x" by (simp add: paletteOrder_def)
    then show ?thesis using False Cons by (auto simp: set_insort_key)
  qed
qed

lemma sort_paletteOrder:
  assumes "sorted_wrt (\<lambda>a b. firstIndex (fst a) keys < firstIndex (fst b) keys) xs"
  shows "sorted_wrt (paletteOrder keys) (sort_key (\<lambda>e. - int (snd e)) xs)"
  using assms
proof (induction xs)
  case Nil
  then show ?case by simp
next
  case (Cons x xs)
  then show ?case by (auto intro!: insort_paletteOrder)
qed

section \<open>Quantised channels\<close>

lemma quantize_eq: "quantize v = Fin (real (16 * ((unat v + 8) div 16)))"
proof -
  have "real (unat v) / 16 + 1 / 2 = real (unat v + 8) / real 16"
    by simp
  then have "\<lfloor>real (unat v) / 16 + 1 / 2\<rfloor> = int ((unat v + 8) div 16)"
    by (simp only: floor_divide_of_nat_eq)
  then show ?thesis
    by (simp add: quantize_def)
qed

lemma quantize_high:
  assumes "248 \<le> v"
  shows "quantize v = Fin 256"
proof -
  have "248 \<le> unat v" using assms by (simp add: word_le_nat_alt)
  moreover have "unat v < 256" using unsigned_less[of v] by simp
  ultimately have "(unat v + 8) div 16 = 16" by simp
  then show ?thesis by (simp add: quantize_eq)
qed

lemma natToHex_nonempty: "natToHex n \<noteq> []"
  by (subst natToHex.simps) simp

lemma channelHex_nat_length: "2 \<le> length (channelHex (Fin (real n)))"
proof -
  have "1 \<le> length (natToHex n)"
    using natToHex_nonempty[of n] by (cases "natToHex n") simp_all
  then show ?thesis
    by (simp only: channelHex_def toString16_nat Let_def) auto
qed

lemma channelHex_256: "channelHex (Fin 256) = ''100''"
  by (simp add: channelHex_def intToHex_def natToHex.simps digitChar_values)

lemma overflow_length:
  assumes "248 \<le> r \<or> 248 \<le> g \<or> 248 \<le> b"
  shows "7 < length (rgbToHex (quantize r) (quantize g) (quantize b))"
proof -
  have "2 \<le> length (channelHex (quantize r))" "2 \<le> length (channelHex (quantize g))"
    "2 \<le> length (channelHex (quantize b))"
    by (simp_all only: quantize_eq channelHex_nat_length)
  moreover have "3 \<le> length (channelHex (quantize r)) \<or> 3 \<le> length (channelHex (quantize g))
     \<or> 3 \<le> length (channelHex (quantize b))"
    using assms by (auto simp: quantize_high channelHex_256)
  ultimately show ?thesis
    by (auto simp: rgbToHex_def)
qed

lemma isHexColor_length: "isHexColor x \<Longrightarrow> length x = 7"
  by (auto simp: isHexColor_iff)

lemma sortedColors_keys: "set (map fst (sortedColors d)) = set (opaqueKeys d)"
  using mapInv_sampleLoop[of d] by (simp add: sortedColors_def mapInv_def)

lemma tieImage_keys:
  "opaqueKeys tieImage =
     [(Fin 0, Fin 0, Fin 0), (Fin 16, Fin 16, Fin 16), (Fin 16, Fin 16, Fin 16), (Fin 0, Fin 0, Fin 0)]"
  by (simp add: tieImage_def opaqueKeys_def isOpaque_def bucketOf_def quantize_def)

lemma tieImage_sorted:
  "sortedColors tieImage = [((Fin 0, Fin 0, Fin 0), 2), ((Fin 16, Fin 16, Fin 16), 2)]"
  by (simp add: tieImage_def sortedColors_def quantize_def)

section \<open>An image without opaque pixels\<close>




section \<open>The order of the palette\<close>

text \<open>
  C9. The specification: buckets are listed by descending count, and buckets with equal
  counts in first-seen order, where first-seen is glossed as the earliest key to reach
  that count during the pass. On \<open>tieImage\<close> the pass sees black, grey, grey, black:
  both buckets end with count 2, grey reaches 2 at position 2 and black at position 3,
  yet black is listed first.
\<close>

theorem sortedColors_tie_counterexample:
  "opaqueKeys tieImage =
     [(Fin 0, Fin 0, Fin 0), (Fin 16, Fin 16, Fin 16), (Fin 16, Fin 16, Fin 16), (Fin 0, Fin 0, Fin 0)]
   \<and> sortedColors tieImage = [((Fin 0, Fin 0, Fin 0), 2), ((Fin 16, Fin 16, Fin 16), 2)]
   \<and> reachIndex (Fin 16, Fin 16, Fin 16) 2 (opaqueKeys tieImage) = 2
   \<and> reachIndex (Fin 0, Fin 0, Fin 0) 2 (opaqueKeys tieImage) = 3"
  by (simp add: tieImage_keys tieImage_sorted)

text \<open>
  C9, as the code has it: for every image, the buckets are listed by descending count,
  and buckets with equal counts in the order in which their keys first occur in the
  sampling pass (the order of insertion into \<^verbatim>\<open>colorMap\<close>, kept by the stable sort).
  There is one bucket per key that occurs, its count is the number of occurrences, and
  the palette shown is the first ten buckets of that list.
\<close>

theorem sortedColors_order:
  "sorted_wrt (paletteOrder (opaqueKeys d)) (sortedColors d)
   \<and> distinct (map fst (sortedColors d))
   \<and> set (map fst (sortedColors d)) = set (opaqueKeys d)
   \<and> map snd (sortedColors d) = map (count_list (opaqueKeys d)) (map fst (sortedColors d))
   \<and> (\<forall>p. extractColors d = Inr p \<longrightarrow>
         extractedColors p = map paletteColor (take 10 (sortedColors d)))"
proof -
  let ?ks = "opaqueKeys d" and ?m = "sampleLoop d []"
  have inv: "mapInv ?ks ?m" by (rule mapInv_sampleLoop)
  have "sorted_wrt (\<lambda>a b. firstIndex (fst a) ?ks < firstIndex (fst b) ?ks) ?m"
    using inv by (simp add: mapInv_def sorted_wrt_map)
  then have 1: "sorted_wrt (paletteOrder ?ks) (sortedColors d)"
    unfolding sortedColors_def by (rule sort_paletteOrder)
  have dm: "distinct (map fst ?m)" using inv by (simp add: mapInv_def)
  have 2: "distinct (map fst (sortedColors d))"
    using dm by (simp add: sortedColors_def distinct_map)
  have cnt: "n = count_list ?ks k" if "(k, n) \<in> set ?m" for k n
  proof -
    have "map_of ?m k = Some n" using that dm by simp
    moreover have "map_of ?m k = (if k \<in> set ?ks then Some (count_list ?ks k) else None)"
      using inv unfolding mapInv_def by blast
    ultimately show ?thesis by (simp split: if_splits)
  qed
  have 4: "map snd (sortedColors d) = map (count_list ?ks) (map fst (sortedColors d))"
    using cnt by (auto simp: sortedColors_def)
  have 5: "\<forall>p. extractColors d = Inr p \<longrightarrow>
         extractedColors p = map paletteColor (take 10 (sortedColors d))"
    by (auto simp: extractColors_def split: list.splits)
  show ?thesis using 1 2 4 5 sortedColors_keys by blast
qed

theorem sortedColors_order_witness:
  "sorted_wrt (paletteOrder (opaqueKeys tieImage)) (sortedColors tieImage)
   \<and> map snd (sortedColors tieImage) = [2, 2]
   \<and> firstIndex (Fin 0, Fin 0, Fin 0) (opaqueKeys tieImage) = 0
   \<and> firstIndex (Fin 16, Fin 16, Fin 16) (opaqueKeys tieImage) = 1
   \<and> (\<exists>p. extractColors tieImage = Inr p \<and> map color_hex (extractedColors p) = [''#000000'', ''#101010''])"
proof -
  have "extractColors tieImage = Inr \<lparr>dominantHex = ''#000000'',
          extractedColors = map paletteColor (take 10 (sortedColors tieImage))\<rparr>"
    by (simp add: extractColors_def tieImage_sorted rgbToHex_def channelHex_def intToHex_def
          natToHex.simps digitChar_values)
  moreover have "map color_hex (map paletteColor (take 10 (sortedColors tieImage)))
      = [''#000000'', ''#101010'']"
    by (simp add: tieImage_sorted paletteColor_def rgbToHex_def channelHex_def intToHex_def
          natToHex.simps digitChar_values)
  ultimately show ?thesis
    using sortedColors_order [of tieImage]
    by (simp add: tieImage_keys tieImage_sorted firstIndex_def)
qed

section \<open>Channels that quantise to 256\<close>

text \<open>
  C10. For every sampled opaque pixel with a channel value \<open>v\<close> between 248 and 255,
  \<^verbatim>\<open>Math.round(v / 16) * 16\<close> is 256, outside the range of a colour channel; \<^verbatim>\<open>rgbToHex\<close>
  writes such a channel as the three characters \<^verbatim>\<open>100\<close>, so the hex string of the
  pixel's bucket has more than seven characters and is not a colour string.
\<close>

theorem quantize_overflow_hex:
  "(248 \<le> v \<longrightarrow> quantize v = Fin 256 \<and> channelHex (quantize v) = ''100'')
   \<and> ((r, g, b, alpha) \<in> set (sampledPixels d) \<and> isOpaque (r, g, b, alpha)
        \<and> (248 \<le> r \<or> 248 \<le> g \<or> 248 \<le> b) \<longrightarrow>
       (\<exists>e \<in> set (sortedColors d). fst e = (quantize r, quantize g, quantize b)
           \<and> 7 < length (color_hex (paletteColor e))
           \<and> \<not> isHexColor (color_hex (paletteColor e))))"
proof -
  have "\<exists>e \<in> set (sortedColors d). fst e = (quantize r, quantize g, quantize b)
           \<and> 7 < length (color_hex (paletteColor e))
           \<and> \<not> isHexColor (color_hex (paletteColor e))"
    if px: "(r, g, b, alpha) \<in> set (sampledPixels d)" "isOpaque (r, g, b, alpha)"
      and hi: "248 \<le> r \<or> 248 \<le> g \<or> 248 \<le> b"
  proof -
    have "bucketOf (r, g, b, alpha) \<in> set (opaqueKeys d)"
      using px by (auto simp: opaqueKeys_def)
    then have "(quantize r, quantize g, quantize b) \<in> set (map fst (sortedColors d))"
      by (simp only: sortedColors_keys bucketOf_def split: prod.splits) simp
    then obtain e where e: "e \<in> set (sortedColors d)" "fst e = (quantize r, quantize g, quantize b)"
      by auto
    have hex: "color_hex (paletteColor e) = rgbToHex (quantize r) (quantize g) (quantize b)"
      using e(2) by (cases e) (auto simp: paletteColor_def)
    have "7 < length (color_hex (paletteColor e))"
      using overflow_length[OF hi] by (simp add: hex)
    moreover from this have "\<not> isHexColor (color_hex (paletteColor e))"
      using isHexColor_length by fastforce
    ultimately show ?thesis using e by blast
  qed
  then show ?thesis
    by (auto simp: quantize_high channelHex_256)
qed

theorem quantize_overflow_hex_witness:
  "(248 :: 8 word) \<le> 250 \<and> quantize 250 = Fin 256 \<and> channelHex (quantize 250) = ''100''
   \<and> (250, 0, 0, 255) \<in> set (sampledPixels [250, 0, 0, 255]) \<and> isOpaque (250, 0, 0, 255)
   \<and> (\<exists>e \<in> set (sortedColors [250, 0, 0, 255]). fst e = (quantize 250, quantize 0, quantize 0)
           \<and> 7 < length (color_hex (paletteColor e))
           \<and> \<not> isHexColor (color_hex (paletteColor e)))"
  using quantize_overflow_hex [of 250 250 0 0 255 "[250, 0, 0, 255]"]
  by (simp add: isOpaque_def quantize_high)

section \<open>Finite numbers\<close>

lemma max2_Fin: "max2 (Fin a) (Fin b) = Fin (max a b)"
  by (simp add: max_def)
lemma min2_Fin: "min2 (Fin a) (Fin b) = Fin (min a b)"
  by (simp add: min_def)
lemma Math_max2: "Math_max [Fin a, Fin b] = Fin (max a b)"
  by (simp add: Math_max_def max2_Fin)
lemma Math_min2: "Math_min [Fin a, Fin b] = Fin (min a b)"
  by (simp add: Math_min_def min2_Fin)



section \<open>HSL conversion on colours\<close>




















lemma digitChar_hex: "a < 16 \<Longrightarrow> isHexDigit (digitChar a) \<and> digitOf (digitChar a) = a"
  by (auto simp: digitChar_def isHexDigit_def digitOf_def hexDigitValue_def Let_def)

lemma channelHex_byte:
  assumes "R \<le> 255"
  shows "channelHex (Fin (real R)) = [digitChar (R div 16), digitChar (R mod 16)]"
proof -
  have R: "R = 16 * (R div 16) + R mod 16" "R div 16 < 16" "R mod 16 < 16"
    using assms by simp_all
  show ?thesis
    using natToHex_two[OF R(2,3)] R(1) by (simp only: channelHex_def toString16_nat)
qed

lemma colorHex_valid:
  assumes "r \<le> 255" "g \<le> 255" "b \<le> 255"
  shows "isHexColor (colorHex r g b)" and "correspondingColor (colorHex r g b) = (r, g, b)"
proof -
  have d: "r div 16 < 16" "r mod 16 < 16" "g div 16 < 16" "g mod 16 < 16" "b div 16 < 16" "b mod 16 < 16"
    using assms by simp_all
  have x: "colorHex r g b = [CHR ''#'', digitChar (r div 16), digitChar (r mod 16),
      digitChar (g div 16), digitChar (g mod 16), digitChar (b div 16), digitChar (b mod 16)]"
    by (simp add: colorHex_def rgbToHex_def channelHex_byte assms)
  show "isHexColor (colorHex r g b)"
    unfolding x isHexColor_iff using d by (simp add: digitChar_hex)
  show "correspondingColor (colorHex r g b) = (r, g, b)"
    unfolding x using d by (simp add: correspondingColor_def channelValue_def digitChar_hex)
qed



lemma colorHex_examples:
  "colorHex 0 0 0 = ''#000000''" "colorHex 255 255 255 = ''#ffffff''"
  "colorHex 255 0 0 = ''#ff0000''" "colorHex 52 152 219 = ''#3498db''"
  by (simp_all add: colorHex_def rgbToHex_def channelHex_def intToHex_def natToHex.simps
        digitChar_values)




section \<open>Round trip through HSL\<close>



section \<open>The scheme table\<close>















section \<open>Relative luminance and contrast\<close>

lemma linearize_Fin:
  assumes "0 \<le> v"
  shows "(if Fin v \<le> Fin 0.03928 then Fin v / Fin 12.92
          else Math_pow ((Fin v + Fin 0.055) / Fin 1.055) 2.4) = Fin (linearize v)"
  using assms by (simp add: linearize_def)

lemma linearize_range:
  assumes "0 \<le> v" "v \<le> 1"
  shows "0 \<le> linearize v" "linearize v \<le> 1"
proof -
  show "0 \<le> linearize v" using assms by (simp add: linearize_def)
  show "linearize v \<le> 1"
  proof (cases "v \<le> 0.03928")
    case True
    then show ?thesis using assms by (simp add: linearize_def)
  next
    case False
    have "0 \<le> (v + 0.055) / 1.055" "(v + 0.055) / 1.055 \<le> 1" using assms by simp_all
    then have "((v + 0.055) / 1.055) powr 2.4 \<le> 1 powr 2.4"
      by (intro powr_mono2) simp_all
    then show ?thesis using False by (simp add: linearize_def)
  qed
qed

lemma relativeLuminance_range:
  assumes "r \<le> 255" "g \<le> 255" "b \<le> 255"
  shows "0 \<le> relativeLuminance (r, g, b)" "relativeLuminance (r, g, b) \<le> 1"
proof -
  have rng: "0 \<le> real r / 255" "real r / 255 \<le> 1" "0 \<le> real g / 255" "real g / 255 \<le> 1"
    "0 \<le> real b / 255" "real b / 255 \<le> 1"
    using assms by simp_all
  note l = linearize_range[OF rng(1,2)] linearize_range[OF rng(3,4)] linearize_range[OF rng(5,6)]
  show "0 \<le> relativeLuminance (r, g, b)" "relativeLuminance (r, g, b) \<le> 1"
    using l by (simp_all add: relativeLuminance_def)
qed

lemma getLuminance_color:
  assumes "isHexColor x"
  shows "getLuminance x = Fin (relativeLuminance (correspondingColor x))"
proof -
  obtain R G B where cc: "correspondingColor x = (R, G, B)" by (cases "correspondingColor x")
  have "hexChannels x = (Fin (real R), Fin (real G), Fin (real B))"
    using hexChannels_color[OF assms] cc by simp
  then have p: "parseInt16 (slice 1 3 x) = Fin (real R)" "parseInt16 (slice 3 5 x) = Fin (real G)"
    "parseInt16 (slice 5 7 x) = Fin (real B)"
    by (simp_all add: hexChannels_def)
  have q: "Fin (real n) / Fin 255 = Fin (real n / 255)" for n by simp
  have nn: "0 \<le> real n / 255" for n by simp
  show ?thesis
    unfolding getLuminance_def Let_def p q cc
    by (simp only: list.map linearize_Fin[OF nn] nth_Cons_0 nth_Cons_Suc One_nat_def[symmetric]
          relativeLuminance_def prod.case)
       (simp add: mult.commute)
qed

lemma getLuminance_colorHex:
  assumes "r \<le> 255" "g \<le> 255" "b \<le> 255"
  shows "getLuminance (colorHex r g b) = Fin (relativeLuminance (r, g, b))"
  using getLuminance_color[OF colorHex_valid(1)[OF assms]] colorHex_valid(2)[OF assms] by simp

lemma luminance_black: "relativeLuminance (0, 0, 0) = 0"
  by (simp add: relativeLuminance_def linearize_def)

lemma luminance_white: "relativeLuminance (255, 255, 255) = 1"
  by (simp add: relativeLuminance_def linearize_def)

text \<open>
  C2. For every colour with channels between 0 and 255, \<^verbatim>\<open>getLuminance\<close> returns the
  relative luminance of the WCAG 2.1 formula: each channel divided by 255, mapped
  linearly when at most 0.03928 and by the power 2.4 otherwise, weighted 0.2126,
  0.7152 and 0.0722; the result lies between 0 and 1.
\<close>

theorem getLuminance_wcag:
  assumes "r \<le> 255" "g \<le> 255" "b \<le> 255"
  shows "getLuminance (colorHex r g b) = Fin (relativeLuminance (r, g, b))
       \<and> 0 \<le> relativeLuminance (r, g, b) \<and> relativeLuminance (r, g, b) \<le> 1"
  using getLuminance_colorHex[OF assms] relativeLuminance_range[OF assms] by simp

theorem getLuminance_wcag_witness:
  "(255::nat) \<le> 255 \<and> getLuminance ''#ffffff'' = Fin 1
   \<and> (0::real) \<le> 1 \<and> relativeLuminance (255, 255, 255) \<le> 1"
proof -
  have h: "(255::nat) \<le> 255" by simp
  show ?thesis
    using getLuminance_wcag [OF h h h] by (simp add: luminance_white colorHex_examples)
qed

text \<open>
  C1. For every pair of colours, \<^verbatim>\<open>checkContrast\<close> computes the ratio
  \<open>(max L1 L2 + 0.05) / (min L1 L2 + 0.05)\<close> of the two relative luminances, and each
  label on its own: AA normal passes iff the ratio is at least 4.5, AA large iff at
  least 3, AAA normal iff at least 7, AAA large iff at least 4.5.
\<close>

theorem checkContrast_ratio:
  assumes "r1 \<le> 255" "g1 \<le> 255" "b1 \<le> 255" "r2 \<le> 255" "g2 \<le> 255" "b2 \<le> 255"
  shows "let l1 = relativeLuminance (r1, g1, b1); l2 = relativeLuminance (r2, g2, b2);
             \<rho> = contrastRatio l1 l2
         in getLuminance (colorHex r1 g1 b1) = Fin l1
          \<and> getLuminance (colorHex r2 g2 b2) = Fin l2
          \<and> checkContrast (colorHex r1 g1 b1) (colorHex r2 g2 b2) =
               Inr \<lparr>ratio = Fin \<rho>, aaNormal = (4.5 \<le> \<rho>), aaLarge = (3 \<le> \<rho>),
                    aaaNormal = (7 \<le> \<rho>), aaaLarge = (4.5 \<le> \<rho>)\<rparr>"
proof -
  define l1 l2 where "l1 = relativeLuminance (r1, g1, b1)" and "l2 = relativeLuminance (r2, g2, b2)"
  have g: "getLuminance (colorHex r1 g1 b1) = Fin l1" "getLuminance (colorHex r2 g2 b2) = Fin l2"
    using getLuminance_colorHex assms by (simp_all add: l1_def l2_def)
  have "0 \<le> l1" "0 \<le> l2"
    using relativeLuminance_range(1) assms by (simp_all add: l1_def l2_def)
  then have nz: "min l1 l2 + 0.05 \<noteq> 0" by (simp add: min_def)
  have "(Math_max [Fin l1, Fin l2] + Fin 0.05) / (Math_min [Fin l1, Fin l2] + Fin 0.05)
      = Fin ((max l1 l2 + 0.05) / (min l1 l2 + 0.05))"
    using nz by (simp add: Math_max2 Math_min2)
  then have "checkContrast (colorHex r1 g1 b1) (colorHex r2 g2 b2) =
     Inr \<lparr>ratio = Fin ((max l1 l2 + 0.05) / (min l1 l2 + 0.05)),
          aaNormal = (4.5 \<le> (max l1 l2 + 0.05) / (min l1 l2 + 0.05)),
          aaLarge = (3 \<le> (max l1 l2 + 0.05) / (min l1 l2 + 0.05)),
          aaaNormal = (7 \<le> (max l1 l2 + 0.05) / (min l1 l2 + 0.05)),
          aaaLarge = (4.5 \<le> (max l1 l2 + 0.05) / (min l1 l2 + 0.05))\<rparr>"
    unfolding checkContrast_def Let_def g by simp
  then show ?thesis
    using g unfolding Let_def l1_def l2_def contrastRatio_def by blast
qed

theorem checkContrast_ratio_witness:
  "(0::nat) \<le> 255 \<and> (255::nat) \<le> 255
   \<and> checkContrast ''#000000'' ''#ffffff'' =
        Inr \<lparr>ratio = Fin 21, aaNormal = True, aaLarge = True, aaaNormal = True, aaaLarge = True\<rparr>"
proof -
  have h: "(0::nat) \<le> 255" "(255::nat) \<le> 255" by simp_all
  show ?thesis
    using checkContrast_ratio [OF h(1) h(1) h(1) h(2) h(2) h(2)]
    by (simp add: Let_def contrastRatio_def luminance_black luminance_white colorHex_examples)
qed

end
